theory Spec2Isabelle
  imports Main "HOL-Library.AList"
begin

section \<open>JavaScript values\<close>

text \<open>
  The utilities of \<^verbatim>\<open>src/index.js\<close> work on untyped JavaScript values: objects read from
  JSON, strings taken from the action's inputs, \<^verbatim>\<open>null\<close> and \<^verbatim>\<open>undefined\<close>. The model keeps
  that: one datatype of values, an object being the list of its own properties in
  insertion order. Numbers are the integers (the only number the code inspects is the
  count \<^verbatim>\<open>generateFailedCount\<close>). A string is a list of characters, read as ASCII: the
  base URL, the ids and the levels are ASCII texts, and \<^verbatim>\<open>toLowerCase\<close> keeps the length of
  such a text. Functions, symbols, getters and the properties an object inherits from
  its prototype are outside the model.
\<close>

datatype jsval =
    JUndefined
  | JNull
  | JBool bool
  | JNum int
  | JStr string
  | JArr "jsval list"
  | JObj "(string \<times> jsval) list"

text \<open>The exceptions the code throws itself or provokes from the runtime.\<close>

datatype exn =
    GenerateFailureException string
  | TypeError
  | SyntaxError

text \<open>What the code writes: \<^verbatim>\<open>console.log\<close> and \<^verbatim>\<open>console.error\<close>, each with its argument.\<close>

datatype console = ConsoleLog jsval | ConsoleError jsval

subsection \<open>Conversion to string\<close>

fun digitChar :: "nat \<Rightarrow> char" where
  "digitChar n = ''0123456789'' ! n"

fun natToString :: "nat \<Rightarrow> string" where
  "natToString n =
     (if n < 10 then [digitChar n] else natToString (n div 10) @ [digitChar (n mod 10)])"

definition numberToString :: "int \<Rightarrow> string" where
  "numberToString i =
     (if i < 0 then CHR ''-'' # natToString (nat (- i)) else natToString (nat i))"

fun join :: "string \<Rightarrow> string list \<Rightarrow> string" where
  "join sep [] = []"
| "join sep [x] = x"
| "join sep (x # y # ys) = x @ sep @ join sep (y # ys)"

text \<open>
  \<^verbatim>\<open>ToString\<close>, which a template literal \<^verbatim>\<open>`${x}`\<close> and \<^verbatim>\<open>String.prototype.concat\<close> apply
  to their arguments: a string is itself, an array is its elements joined by commas
  (\<^verbatim>\<open>null\<close> and \<^verbatim>\<open>undefined\<close> elements as empty strings), a plain object is
  \<^verbatim>\<open>[object Object]\<close>.
\<close>

fun toString :: "jsval \<Rightarrow> string" where
  "toString JUndefined = ''undefined''"
| "toString JNull = ''null''"
| "toString (JBool b) = (if b then ''true'' else ''false'')"
| "toString (JNum i) = numberToString i"
| "toString (JStr s) = s"
| "toString (JArr xs) =
     join '','' (map (\<lambda>x. if x = JNull \<or> x = JUndefined then [] else toString x) xs)"
| "toString (JObj kvs) = ''[object Object]''"

subsection \<open>Reading a property\<close>

definition indexOfKey :: "string \<Rightarrow> nat \<Rightarrow> nat option" where
  "indexOfKey k n = find (\<lambda>i. natToString i = k) [0..<n]"

text \<open>
  \<^verbatim>\<open>v[k]\<close> on a value that is neither \<^verbatim>\<open>null\<close> nor \<^verbatim>\<open>undefined\<close>: an own property of an
  object, the length or an element of an array or a string, \<^verbatim>\<open>undefined\<close> otherwise. The
  two first equations only make the function total: the read throws there, which
  \<open>getProp\<close> says.
\<close>

fun ownProp :: "jsval \<Rightarrow> string \<Rightarrow> jsval" where
  "ownProp JUndefined k = JUndefined"
| "ownProp JNull k = JUndefined"
| "ownProp (JBool b) k = JUndefined"
| "ownProp (JNum i) k = JUndefined"
| "ownProp (JStr s) k =
     (if k = ''length'' then JNum (int (length s))
      else case indexOfKey k (length s) of Some i \<Rightarrow> JStr [s ! i] | None \<Rightarrow> JUndefined)"
| "ownProp (JArr xs) k =
     (if k = ''length'' then JNum (int (length xs))
      else case indexOfKey k (length xs) of Some i \<Rightarrow> xs ! i | None \<Rightarrow> JUndefined)"
| "ownProp (JObj kvs) k = (case map_of kvs k of Some v \<Rightarrow> v | None \<Rightarrow> JUndefined)"

definition getProp :: "jsval \<Rightarrow> string \<Rightarrow> exn + jsval" where
  "getProp v k = (if v = JNull \<or> v = JUndefined then Inl TypeError else Inr (ownProp v k))"

text \<open>Truthiness, as \<^verbatim>\<open>if (x)\<close> tests it.\<close>

fun truthy :: "jsval \<Rightarrow> bool" where
  "truthy JUndefined = False"
| "truthy JNull = False"
| "truthy (JBool b) = b"
| "truthy (JNum i) = (i \<noteq> 0)"
| "truthy (JStr s) = (s \<noteq> [])"
| "truthy (JArr xs) = True"
| "truthy (JObj kvs) = True"

section \<open>Strings\<close>

text \<open>\<^verbatim>\<open>toLowerCase\<close> on an ASCII text: the letters A to Z become a to z.\<close>

definition toLowerCaseChar :: "char \<Rightarrow> char" where
  "toLowerCaseChar c =
     (case map_of (zip ''ABCDEFGHIJKLMNOPQRSTUVWXYZ'' ''abcdefghijklmnopqrstuvwxyz'') c of
        Some l \<Rightarrow> l
      | None \<Rightarrow> c)"

definition toLowerCase :: "string \<Rightarrow> string" where
  "toLowerCase s = map toLowerCaseChar s"

text \<open>
  \<^verbatim>\<open>s.lastIndexOf(p)\<close>: the greatest index at which \<open>p\<close> starts in \<open>s\<close>, and \<open>-1\<close> when
  there is none.
\<close>

fun lastIndexOf :: "string \<Rightarrow> string \<Rightarrow> int" where
  "lastIndexOf [] p = (if p = [] then 0 else - 1)"
| "lastIndexOf (c # cs) p =
     (let r = lastIndexOf cs p
      in if 0 \<le> r then r + 1
         else if take (length p) (c # cs) = p then 0
         else - 1)"

text \<open>
  \<^verbatim>\<open>s.substr(start, n)\<close> for indexes that are not negative, and \<^verbatim>\<open>s.endsWith(e)\<close>.
\<close>

definition substr :: "string \<Rightarrow> nat \<Rightarrow> nat \<Rightarrow> string" where
  "substr s start n = take n (drop start s)"

definition endsWith :: "string \<Rightarrow> string \<Rightarrow> bool" where
  "endsWith s e = (length e \<le> length s \<and> drop (length s - length e) s = e)"

section \<open>The utilities\<close>

subsection \<open>stringHasContent\<close>

text \<open>
  The test reads \<^verbatim>\<open>inputStr.length\<close> of whatever it is given: a string and an array have a
  length, an object has one if it owns a property of that name, a number and a boolean
  have none.
\<close>

definition stringHasContent :: "jsval \<Rightarrow> bool" where
  "stringHasContent inputStr =
     (if inputStr = JNull \<or> inputStr = JUndefined \<or> ownProp inputStr ''length'' = JNum 0
      then False else True)"

subsection \<open>validateBuildParms and getMissingInputMessage\<close>

text \<open>
  The table of \<open>getMissingInputMessage\<close>. A field name that is not in it reads
  \<^verbatim>\<open>undefined\<close>, which the template literal prints as such.
\<close>

definition fieldNameReplacement :: "(string \<times> string) list" where
  "fieldNameReplacement =
     [(''containerId'', ''n assignment ID''),
      (''releaseId'', '' release ID''),
      (''taskLevel'', '' level''),
      (''taskIds'', '' list of task IDs'')]"

definition getMissingInputMessage :: "string \<Rightarrow> string" where
  "getMissingInputMessage fieldName =
     ''Missing input: a'' @
     (case map_of fieldNameReplacement fieldName of Some r \<Rightarrow> r | None \<Rightarrow> ''undefined'') @
     '' must be specified.''"

text \<open>
  The body of the \<^verbatim>\<open>forEach\<close> over the required fields, threading the flag \<^verbatim>\<open>isValid\<close>
  and the lines written so far.
\<close>

fun validateFields ::
  "jsval \<Rightarrow> string list \<Rightarrow> bool \<times> console list \<Rightarrow> exn + bool \<times> console list" where
  "validateFields buildParms [] st = Inr st"
| "validateFields buildParms (field # fields) (isValid, out) =
     (case getProp buildParms field of
        Inl e \<Rightarrow> Inl e
      | Inr v \<Rightarrow>
          if \<not> stringHasContent v
          then validateFields buildParms fields
                 (False, out @ [ConsoleError (JStr (getMissingInputMessage field))])
          else validateFields buildParms fields (isValid, out))"

definition validateBuildParms :: "jsval \<Rightarrow> string list \<Rightarrow> exn + bool \<times> console list" where
  "validateBuildParms buildParms requiredFields =
     (if buildParms \<noteq> JNull \<and> buildParms \<noteq> JUndefined
      then validateFields buildParms requiredFields (True, [])
      else Inr (False, []))"

subsection \<open>assembleRequestUrl\<close>

text \<open>
  \<^verbatim>\<open>buildParms.taskIds.forEach(...)\<close>: each id appends \<^verbatim>\<open>taskId=${id}&\<close>. A value that is
  not an array has no \<^verbatim>\<open>forEach\<close>, and the call throws.
\<close>

definition forEachTaskId :: "jsval \<Rightarrow> string \<Rightarrow> exn + string" where
  "forEachTaskId taskIds tempUrlStr =
     (case taskIds of
        JArr ids \<Rightarrow> Inr (foldl (\<lambda>t i. t @ ''taskId='' @ toString i @ ''&'') tempUrlStr ids)
      | _ \<Rightarrow> Inl TypeError)"

text \<open>
  The URL class is the runtime's: the constructor is the parameter \<open>newURL\<close>, which may
  refuse the text it is given.
\<close>

definition assembleRequestUrl ::
  "(string \<Rightarrow> exn + 'u) \<Rightarrow> string \<Rightarrow> string \<Rightarrow> jsval \<Rightarrow> exn + 'u" where
  "assembleRequestUrl newURL cesUrl srid buildParms =
     (let lowercaseUrl = toLowerCase cesUrl;
          cpwrIndex = lastIndexOf lowercaseUrl ''/compuware'';
          cesUrl1 = (if cpwrIndex > 0 then substr cesUrl 0 (nat cpwrIndex) else cesUrl);
          lowercaseUrl1 = toLowerCase cesUrl1;
          ispwIndex = lastIndexOf lowercaseUrl1 ''/ispw'';
          cesUrl2 = (if ispwIndex > 0 then substr cesUrl1 0 (nat ispwIndex) else cesUrl1);
          cesUrl3 = (if endsWith cesUrl2 ''/''
                     then substr cesUrl2 0 (length cesUrl2 - 1) else cesUrl2);
          tempUrlStr = cesUrl3 @ ''/ispw/'' @ srid @ ''/assignments/''
      in case getProp buildParms ''containerId'' of
           Inl e \<Rightarrow> Inl e
         | Inr containerId \<Rightarrow>
             (let tempUrlStr1 = tempUrlStr @ toString containerId;
                  tempUrlStr2 = tempUrlStr1 @ ''/taskIds/generate-await?''
              in case getProp buildParms ''taskIds'' of
                   Inl e \<Rightarrow> Inl e
                 | Inr taskIds \<Rightarrow>
                     (case forEachTaskId taskIds tempUrlStr2 of
                        Inl e \<Rightarrow> Inl e
                      | Inr tempUrlStr3 \<Rightarrow>
                          (case getProp buildParms ''taskLevel'' of
                             Inl e \<Rightarrow> Inl e
                           | Inr taskLevel \<Rightarrow>
                               newURL (tempUrlStr3 @ ''level='' @ toString taskLevel)))))"

subsection \<open>assembleRequestBodyObject\<close>

text \<open>
  \<^verbatim>\<open>requestBody.k = v\<close> on the object under construction: \<open>AList.update\<close> replaces the
  value of a key that is there and appends a new key at the end.
\<close>

definition assembleRequestBodyObject :: "jsval \<Rightarrow> jsval \<Rightarrow> jsval \<Rightarrow> jsval \<Rightarrow> jsval" where
  "assembleRequestBodyObject runtimeConfig changeType executionStatus autoDeploy =
     (let requestBody = [];
          requestBody1 = (if stringHasContent runtimeConfig
                          then AList.update ''runtimeConfig'' runtimeConfig requestBody
                          else requestBody);
          requestBody2 = (if stringHasContent changeType
                          then AList.update ''changeType'' changeType requestBody1
                          else requestBody1);
          requestBody3 = (if stringHasContent executionStatus
                          then AList.update ''execStat'' executionStatus requestBody2
                          else requestBody2);
          requestBody4 = AList.update ''autoDeploy'' (JBool (autoDeploy = JStr ''true''))
                           requestBody3
      in JObj requestBody4)"

subsection \<open>handleResponseBody and getStatusMessageToPrint\<close>

definition getStatusMessageToPrint :: "jsval \<Rightarrow> string" where
  "getStatusMessageToPrint statusMsg =
     (case statusMsg of
        JStr s \<Rightarrow> s
      | JArr ls \<Rightarrow> foldl (\<lambda>message line. message @ (toString line @ [CHR 0x0A])) [] ls
      | _ \<Rightarrow> [])"

definition handleResponseBody :: "jsval \<Rightarrow> console list \<times> (exn + jsval)" where
  "handleResponseBody responseBody =
     (if responseBody = JUndefined
      then ([], Inl (GenerateFailureException
                       ''No response was received from the generate request.''))
      else case getProp responseBody ''awaitStatus'' of
        Inl e \<Rightarrow> ([], Inl e)
      | Inr awaitStatus \<Rightarrow>
          if awaitStatus = JUndefined
          then (case getProp responseBody ''message'' of
                  Inl e \<Rightarrow> ([], Inl e)
                | Inr message \<Rightarrow>
                    ((if truthy message then [ConsoleLog message] else []),
                     Inl (GenerateFailureException
                            ''The generate did not complete successfully.'')))
          else (case getProp awaitStatus ''generateFailedCount'' of
                  Inl e \<Rightarrow> ([], Inl e)
                | Inr generateFailedCount \<Rightarrow>
                    if generateFailedCount \<noteq> JNum 0
                    then (case getProp awaitStatus ''statusMsg'' of
                            Inl e \<Rightarrow> ([], Inl e)
                          | Inr statusMsg \<Rightarrow>
                              ([ConsoleError (JStr (getStatusMessageToPrint statusMsg))],
                               Inl (GenerateFailureException
                                      ''There were generate failures.'')))
                    else (case getProp awaitStatus ''statusMsg'' of
                            Inl e \<Rightarrow> ([], Inl e)
                          | Inr statusMsg \<Rightarrow>
                              ([ConsoleLog (JStr (getStatusMessageToPrint statusMsg))],
                               Inr responseBody))))"

subsection \<open>parseStringAsJson and convertObjectToJson\<close>



section \<open>Vocabulary of the properties\<close>

text \<open>\<open>p\<close> occurs in \<open>s\<close> at index \<open>i\<close>.\<close>

definition occursAt :: "string \<Rightarrow> string \<Rightarrow> nat \<Rightarrow> bool" where
  "occursAt p s i = (i + length p \<le> length s \<and> take (length p) (drop i s) = p)"

text \<open>
  The three steps \<open>assembleRequestUrl\<close> applies to the base URL, named: the cut at the
  last occurrence of a lower-case pattern (when its index is positive), the removal of
  one final slash, and their composition.
\<close>

definition truncateAtLast :: "string \<Rightarrow> string \<Rightarrow> string" where
  "truncateAtLast p s =
     (if lastIndexOf (toLowerCase s) p > 0
      then take (nat (lastIndexOf (toLowerCase s) p)) s else s)"

definition removeTrailingSlash :: "string \<Rightarrow> string" where
  "removeTrailingSlash s = (if s \<noteq> [] \<and> last s = CHR ''/'' then butlast s else s)"

definition normalizeBase :: "string \<Rightarrow> string" where
  "normalizeBase cesUrl =
     removeTrailingSlash (truncateAtLast ''/ispw'' (truncateAtLast ''/compuware'' cesUrl))"

text \<open>What \<open>assembleRequestUrl\<close> does with the base once it is normalized.\<close>

definition composeRequestUrl ::
  "(string \<Rightarrow> exn + 'u) \<Rightarrow> string \<Rightarrow> string \<Rightarrow> jsval \<Rightarrow> exn + 'u" where
  "composeRequestUrl newURL base srid buildParms =
     (case getProp buildParms ''containerId'' of
        Inl e \<Rightarrow> Inl e
      | Inr containerId \<Rightarrow>
          (case getProp buildParms ''taskIds'' of
             Inl e \<Rightarrow> Inl e
           | Inr taskIds \<Rightarrow>
               (case forEachTaskId taskIds
                       (base @ ''/ispw/'' @ srid @ ''/assignments/'' @ toString containerId @
                        ''/taskIds/generate-await?'') of
                  Inl e \<Rightarrow> Inl e
                | Inr t \<Rightarrow>
                    (case getProp buildParms ''taskLevel'' of
                       Inl e \<Rightarrow> Inl e
                     | Inr taskLevel \<Rightarrow> newURL (t @ ''level='' @ toString taskLevel)))))"

definition isNonEmptyString :: "jsval \<Rightarrow> bool" where
  "isNonEmptyString v = (case v of JStr s \<Rightarrow> s \<noteq> [] | _ \<Rightarrow> False)"

definition hasOwnProperty :: "jsval \<Rightarrow> string \<Rightarrow> bool" where
  "hasOwnProperty v k = (case v of JObj kvs \<Rightarrow> map_of kvs k \<noteq> None | _ \<Rightarrow> False)"

subsection \<open>Sample inputs\<close>

definition sampleParms :: jsval where
  "sampleParms =
     JObj [(''containerId'', JStr ''PLAY000001''),
           (''releaseId'', JStr ''RLSE01''),
           (''taskLevel'', JStr ''DEV1''),
           (''taskIds'', JArr [JStr ''7E3A5B274D24'', JStr ''7E3A5B274EFA''])]"





section \<open>Properties\<close>

subsection \<open>Auxiliary facts\<close>

lemma stringHasContent_JStr: "stringHasContent (JStr s) = (s \<noteq> [])"
  by (simp add: stringHasContent_def)

lemma stringHasContent_JArr: "stringHasContent (JArr xs) = (xs \<noteq> [])"
  by (simp add: stringHasContent_def)

lemma validateFields_eq:
  "buildParms \<noteq> JNull \<Longrightarrow> buildParms \<noteq> JUndefined \<Longrightarrow>
   validateFields buildParms fields (isValid, out) =
     Inr (isValid \<and> (\<forall>f \<in> set fields. stringHasContent (ownProp buildParms f)),
          out @ map (\<lambda>f. ConsoleError (JStr (getMissingInputMessage f)))
                  (filter (\<lambda>f. \<not> stringHasContent (ownProp buildParms f)) fields))"
  by (induction fields arbitrary: isValid out) (auto simp add: getProp_def)

lemma foldl_lines:
  "foldl (\<lambda>message line. message @ (toString line @ [CHR 0x0A])) acc (map JStr ss) =
     acc @ concat (map (\<lambda>s. s @ [CHR 0x0A]) ss)"
  by (induction ss arbitrary: acc) simp_all

lemma take_eq_occursAt_0: "(take (length p) s = p) = occursAt p s 0"
proof -
  have "length p \<le> length s" if "take (length p) s = p"
  proof -
    have "length (take (length p) s) = length p" using that by simp
    then show ?thesis by simp
  qed
  then show ?thesis by (auto simp add: occursAt_def)
qed

lemma occursAt_Cons_Suc: "occursAt p (c # cs) (Suc i) = occursAt p cs i"
  by (simp add: occursAt_def)

lemma lastIndexOf_ge: "- 1 \<le> lastIndexOf s p"
  by (induction s) (auto simp add: Let_def)

text \<open>\<open>lastIndexOf\<close> returns an index at which the pattern occurs, and the greatest one.\<close>

lemma lastIndexOf_occurs: "0 \<le> lastIndexOf s p \<Longrightarrow> occursAt p s (nat (lastIndexOf s p))"
proof (induction s)
  case Nil
  then show ?case by (auto simp add: occursAt_def split: if_splits)
next
  case (Cons c cs)
  show ?case
  proof (cases "0 \<le> lastIndexOf cs p")
    case True
    then have "occursAt p cs (nat (lastIndexOf cs p))" by (rule Cons.IH)
    moreover have "nat (lastIndexOf cs p + 1) = Suc (nat (lastIndexOf cs p))"
      using True by simp
    ultimately show ?thesis using True by (simp add: Let_def occursAt_Cons_Suc)
  next
    case False
    with Cons.prems have "take (length p) (c # cs) = p"
      by (auto simp add: Let_def split: if_splits)
    then have "occursAt p (c # cs) 0" by (simp only: take_eq_occursAt_0)
    moreover have "lastIndexOf (c # cs) p = 0" using False Cons.prems
      by (auto simp add: Let_def split: if_splits)
    ultimately show ?thesis by simp
  qed
qed

lemma lastIndexOf_greatest: "occursAt p s i \<Longrightarrow> int i \<le> lastIndexOf s p"
proof (induction s arbitrary: i)
  case Nil
  then show ?case by (auto simp add: occursAt_def)
next
  case (Cons c cs)
  show ?case
  proof (cases i)
    case 0
    with Cons.prems have "take (length p) (c # cs) = p" by (simp only: take_eq_occursAt_0)
    then show ?thesis using 0 lastIndexOf_ge [of cs p] by (auto simp add: Let_def)
  next
    case (Suc j)
    with Cons.prems have "occursAt p cs j" by (simp add: occursAt_Cons_Suc)
    then have "int j \<le> lastIndexOf cs p" by (rule Cons.IH)
    then show ?thesis using Suc by (auto simp add: Let_def)
  qed
qed


lemma endsWith_slash: "endsWith s ''/'' = (s \<noteq> [] \<and> last s = CHR ''/'')"
proof (cases s rule: rev_cases)
  case Nil
  then show ?thesis by (simp add: endsWith_def)
next
  case (snoc ys y)
  then show ?thesis by (auto simp add: endsWith_def)
qed

lemma normalizeBase_steps:
  "(let lowercaseUrl = toLowerCase cesUrl;
        cpwrIndex = lastIndexOf lowercaseUrl ''/compuware'';
        cesUrl1 = (if cpwrIndex > 0 then substr cesUrl 0 (nat cpwrIndex) else cesUrl);
        lowercaseUrl1 = toLowerCase cesUrl1;
        ispwIndex = lastIndexOf lowercaseUrl1 ''/ispw'';
        cesUrl2 = (if ispwIndex > 0 then substr cesUrl1 0 (nat ispwIndex) else cesUrl1);
        cesUrl3 = (if endsWith cesUrl2 ''/''
                   then substr cesUrl2 0 (length cesUrl2 - 1) else cesUrl2);
        tempUrlStr = cesUrl3 @ ''/ispw/'' @ srid @ ''/assignments/''
    in f tempUrlStr) = f (normalizeBase cesUrl @ ''/ispw/'' @ srid @ ''/assignments/'')"
  by (simp only: Let_def normalizeBase_def truncateAtLast_def removeTrailingSlash_def substr_def
        endsWith_slash drop_0 butlast_conv_take)

text \<open>The function is the composition on the normalized base.\<close>

lemma assembleRequestUrl_normalized:
  "assembleRequestUrl newURL cesUrl srid buildParms =
     composeRequestUrl newURL (normalizeBase cesUrl) srid buildParms"
  unfolding assembleRequestUrl_def normalizeBase_steps composeRequestUrl_def
  by (simp only: Let_def append_assoc)

lemma foldl_taskIds:
  "foldl (\<lambda>t i. t @ ''taskId='' @ toString i @ ''&'') acc (map JStr ids) =
     acc @ concat (map (\<lambda>i. ''taskId='' @ i @ ''&'') ids)"
  by (induction ids arbitrary: acc) simp_all

lemma forEachTaskId_strings:
  "forEachTaskId (JArr (map JStr ids)) acc =
     Inr (acc @ concat (map (\<lambda>i. ''taskId='' @ i @ ''&'') ids))"
  by (simp only: forEachTaskId_def jsval.case foldl_taskIds)

lemma composeRequestUrl_strings:
  assumes "getProp buildParms ''containerId'' = Inr (JStr containerId)"
    and "getProp buildParms ''taskIds'' = Inr (JArr (map JStr ids))"
    and "getProp buildParms ''taskLevel'' = Inr (JStr taskLevel)"
  shows "composeRequestUrl newURL base srid buildParms =
     newURL (base @ ''/ispw/'' @ srid @ ''/assignments/'' @ containerId @
             ''/taskIds/generate-await?'' @
             concat (map (\<lambda>i. ''taskId='' @ i @ ''&'') ids) @ ''level='' @ taskLevel)"
  unfolding composeRequestUrl_def
  by (simp only: assms forEachTaskId_strings sum.case toString.simps append_assoc)

subsection \<open>A base URL and its decoration\<close>

lemma lastIndexOf_append_found:
  "0 \<le> lastIndexOf t p \<Longrightarrow> lastIndexOf (x @ t) p = int (length x) + lastIndexOf t p"
  by (induction x) (simp_all add: Let_def)

lemma lastIndexOf_none: "(\<forall>i. \<not> occursAt p s i) \<Longrightarrow> lastIndexOf s p = - 1"
  using lastIndexOf_occurs [of s p] lastIndexOf_ge [of s p] by fastforce

lemma none_lastIndexOf: "lastIndexOf s p = - 1 \<Longrightarrow> \<not> occursAt p s i"
  using lastIndexOf_greatest [of p s i] by auto

lemma occursAt_append:
  assumes "occursAt p (x @ t) i"
  shows "occursAt p x i \<or> (length x \<le> i \<and> occursAt p t (i - length x)) \<or>
         (i < length x \<and> length x < i + length p \<and> t \<noteq> [] \<and> p ! (length x - i) = hd t)"
proof -
  from assms have len: "i + length p \<le> length x + length t"
    and eq: "take (length p) (drop i (x @ t)) = p"
    by (simp_all add: occursAt_def)
  consider (inside) "i + length p \<le> length x" | (after) "length x \<le> i"
    | (across) "i < length x" "length x < i + length p" by linarith
  then show ?thesis
  proof cases
    case inside
    with eq show ?thesis by (simp add: occursAt_def)
  next
    case after
    have "i - length x + length p \<le> length t" using after len by linarith
    moreover have "take (length p) (drop (i - length x) t) = p" using eq after by simp
    ultimately have "occursAt p t (i - length x)" by (simp only: occursAt_def)
    with after show ?thesis by simp
  next
    case across
    from across len have t: "t \<noteq> []" by auto
    have "p ! (length x - i) = take (length p) (drop i (x @ t)) ! (length x - i)"
      by (simp only: eq)
    also have "\<dots> = drop i (x @ t) ! (length x - i)"
      using across by (intro nth_take) linarith
    also have "\<dots> = (drop i x @ t) ! (length x - i)" using across by simp
    also have "\<dots> = t ! 0" using across by (simp add: nth_append)
    also have "\<dots> = hd t" using t by (simp add: hd_conv_nth)
    finally show ?thesis using across t by simp
  qed
qed

lemma occursAt_append_none:
  assumes x: "\<forall>i. \<not> occursAt p x i" and t: "lastIndexOf t p = - 1"
    and hd: "t = [] \<or> hd t = CHR ''/''" and p: "CHR ''/'' \<notin> set (tl p)"
  shows "\<not> occursAt p (x @ t) i"
proof
  assume "occursAt p (x @ t) i"
  then consider "occursAt p x i" | "occursAt p t (i - length x)"
    | "i < length x" "length x < i + length p" "t \<noteq> []" "p ! (length x - i) = hd t"
    using occursAt_append by blast
  then show False
  proof cases
    case 1
    with x show False by simp
  next
    case 2
    with t show False using none_lastIndexOf by blast
  next
    case 3
    let ?m = "length x - i"
    from 3 have m: "0 < ?m" "?m < length p" by simp_all
    then have "p ! ?m = tl p ! (?m - 1)" by (cases p) (simp_all add: nth_Cons')
    moreover have "tl p ! (?m - 1) \<in> set (tl p)" using m by (simp add: nth_mem)
    ultimately have "p ! ?m \<in> set (tl p)" by simp
    with 3 hd p show False by auto
  qed
qed

lemma truncateAtLast_decoration:
  assumes "b \<noteq> []" and "lastIndexOf (toLowerCase t) p = 0"
  shows "truncateAtLast p (b @ t) = b"
proof -
  have "lastIndexOf (toLowerCase b @ toLowerCase t) p = int (length (toLowerCase b)) + 0"
    using lastIndexOf_append_found [of "toLowerCase t" p "toLowerCase b"] assms(2) by simp
  then have "lastIndexOf (toLowerCase (b @ t)) p = int (length b)"
    by (simp add: toLowerCase_def)
  then show ?thesis using assms(1) by (simp add: truncateAtLast_def)
qed

lemma truncateAtLast_unchanged:
  assumes "\<forall>i. \<not> occursAt p (toLowerCase b) i" and "lastIndexOf (toLowerCase t) p = - 1"
    and "t = [] \<or> hd (toLowerCase t) = CHR ''/''" and "CHR ''/'' \<notin> set (tl p)"
  shows "truncateAtLast p (b @ t) = b @ t"
proof -
  have "toLowerCase t = [] \<or> hd (toLowerCase t) = CHR ''/''"
    using assms(3) by (auto simp add: toLowerCase_def)
  then have "\<forall>i. \<not> occursAt p (toLowerCase b @ toLowerCase t) i"
    using occursAt_append_none [OF assms(1) assms(2) _ assms(4)] by blast
  then have "lastIndexOf (toLowerCase (b @ t)) p = - 1"
    using lastIndexOf_none [of p "toLowerCase b @ toLowerCase t"] by (simp add: toLowerCase_def)
  then show ?thesis by (simp add: truncateAtLast_def)
qed

lemma toLowerCase_slash: "toLowerCase (d @ ''/'') = toLowerCase d @ ''/''"
  by (simp add: toLowerCase_def toLowerCaseChar_def)

text \<open>
  When the base itself holds neither pattern and does not end in a slash, each
  decoration (\<^verbatim>\<open>/compuware\<close>, \<^verbatim>\<open>/ispw\<close>, \<^verbatim>\<open>/compuware/ispw\<close> or none, in any case, with
  or without a final slash) is removed and the base is what is left.
\<close>

lemma normalizeBase_decorated:
  assumes b: "b \<noteq> []" "last b \<noteq> CHR ''/''"
    and nc: "\<forall>i. \<not> occursAt ''/compuware'' (toLowerCase b) i"
    and ni: "\<forall>i. \<not> occursAt ''/ispw'' (toLowerCase b) i"
    and d: "toLowerCase d = [] \<or> toLowerCase d = ''/compuware'' \<or> toLowerCase d = ''/ispw'' \<or>
            toLowerCase d = ''/compuware/ispw''"
    and sl: "sl = [] \<or> sl = ''/''"
  shows "normalizeBase (b @ d @ sl) = b"
proof -
  have bare: "truncateAtLast ''/ispw'' b = b"
    using truncateAtLast_unchanged [of "''/ispw''" b "[]"] ni by (simp add: toLowerCase_def)
  have slash: "removeTrailingSlash b = b" "removeTrailingSlash (b @ ''/'') = b"
    using b by (simp_all add: removeTrailingSlash_def)
  from d consider (none) "d = []" | (cpwr) "toLowerCase d = ''/compuware''"
    | (ispw) "toLowerCase d = ''/ispw''" | (both) "toLowerCase d = ''/compuware/ispw''"
    by (auto simp add: toLowerCase_def)
  then show ?thesis
  proof cases
    case none
    have "truncateAtLast ''/compuware'' (b @ sl) = b @ sl"
      using sl nc by (auto intro!: truncateAtLast_unchanged simp add: toLowerCase_def toLowerCaseChar_def)
    moreover have "truncateAtLast ''/ispw'' (b @ sl) = b @ sl"
      using sl ni by (auto intro!: truncateAtLast_unchanged simp add: toLowerCase_def toLowerCaseChar_def)
    ultimately show ?thesis using none sl slash by (auto simp add: normalizeBase_def)
  next
    case cpwr
    have "lastIndexOf (toLowerCase (d @ sl)) ''/compuware'' = 0"
      using sl cpwr by (auto simp add: toLowerCase_slash)
    then have "truncateAtLast ''/compuware'' (b @ d @ sl) = b"
      using b(1) by (rule truncateAtLast_decoration [rotated])
    then show ?thesis using bare slash by (simp add: normalizeBase_def)
  next
    case ispw
    have "lastIndexOf (toLowerCase (d @ sl)) ''/compuware'' = - 1"
      and "hd (toLowerCase (d @ sl)) = CHR ''/''"
      and hit: "lastIndexOf (toLowerCase (d @ sl)) ''/ispw'' = 0"
      using sl ispw by (auto simp add: toLowerCase_slash)
    then have "truncateAtLast ''/compuware'' (b @ d @ sl) = b @ d @ sl"
      using nc by (intro truncateAtLast_unchanged) simp_all
    moreover have "truncateAtLast ''/ispw'' (b @ d @ sl) = b"
      using hit b(1) by (rule truncateAtLast_decoration [rotated])
    ultimately show ?thesis using slash by (simp add: normalizeBase_def)
  next
    case both
    have "lastIndexOf (toLowerCase (d @ sl)) ''/compuware'' = 0"
      using sl both by (auto simp add: toLowerCase_slash)
    then have "truncateAtLast ''/compuware'' (b @ d @ sl) = b"
      using b(1) by (rule truncateAtLast_decoration [rotated])
    then show ?thesis using bare slash by (simp add: normalizeBase_def)
  qed
qed


lemma assembleRequestUrl_decorated:
  assumes "b \<noteq> []" "last b \<noteq> CHR ''/''"
    and "\<forall>i. \<not> occursAt ''/compuware'' (toLowerCase b) i"
    and "\<forall>i. \<not> occursAt ''/ispw'' (toLowerCase b) i"
    and "toLowerCase d = [] \<or> toLowerCase d = ''/compuware'' \<or> toLowerCase d = ''/ispw'' \<or>
         toLowerCase d = ''/compuware/ispw''"
    and "sl = [] \<or> sl = ''/''"
    and "getProp buildParms ''containerId'' = Inr (JStr containerId)"
    and "getProp buildParms ''taskIds'' = Inr (JArr (map JStr ids))"
    and "getProp buildParms ''taskLevel'' = Inr (JStr taskLevel)"
  shows "assembleRequestUrl newURL (b @ d @ sl) srid buildParms =
     newURL (b @ ''/ispw/'' @ srid @ ''/assignments/'' @ containerId @
             ''/taskIds/generate-await?'' @
             concat (map (\<lambda>i. ''taskId='' @ i @ ''&'') ids) @ ''level='' @ taskLevel)"
proof -
  have "normalizeBase (b @ d @ sl) = b"
    using assms(1-6) by (rule normalizeBase_decorated)
  then show ?thesis
    using assms(7-9) by (simp only: assembleRequestUrl_normalized composeRequestUrl_strings)
qed

subsection \<open>handleResponseBody\<close>

text \<open>
  C6, at its failing input. The claim: an absent response body, \<^verbatim>\<open>null\<close> or
  \<^verbatim>\<open>undefined\<close>, fails with \<^verbatim>\<open>GenerateFailureException\<close> and the message "No response
  was received from the generate request.". The code tests \<^verbatim>\<open>responseBody === undefined\<close>
  only: on \<^verbatim>\<open>null\<close> it goes on to read \<^verbatim>\<open>null.awaitStatus\<close>, and the runtime throws a
  \<^verbatim>\<open>TypeError\<close> with nothing written.
\<close>

theorem handleResponseBody_null_TypeError:
  "handleResponseBody JNull = ([], Inl TypeError)"
  by (simp add: handleResponseBody_def getProp_def)

text \<open>On \<^verbatim>\<open>undefined\<close> the guard is taken and the exception is the documented one.\<close>

lemma handleResponseBody_undefined:
  "handleResponseBody JUndefined =
     ([], Inl (GenerateFailureException
                 ''No response was received from the generate request.''))"
  by (simp add: handleResponseBody_def)

text \<open>
  C2, amended. For every response body that is neither \<^verbatim>\<open>undefined\<close> nor \<^verbatim>\<open>null\<close>,
  \<open>handleResponseBody\<close> classifies in this order. When \<^verbatim>\<open>awaitStatus\<close> is \<^verbatim>\<open>undefined\<close>,
  it logs \<^verbatim>\<open>message\<close> if \<^verbatim>\<open>message\<close> is truthy (and nothing otherwise) and fails with
  "The generate did not complete successfully.". When \<^verbatim>\<open>awaitStatus\<close> is neither
  \<^verbatim>\<open>undefined\<close> nor \<^verbatim>\<open>null\<close> and \<^verbatim>\<open>generateFailedCount !== 0\<close>, it writes the formatted
  status message at error level and fails with "There were generate failures.". When
  \<^verbatim>\<open>awaitStatus\<close> is neither \<^verbatim>\<open>undefined\<close> nor \<^verbatim>\<open>null\<close> and \<^verbatim>\<open>generateFailedCount === 0\<close>,
  it logs the formatted status message and returns the response body it was given.
\<close>

theorem handleResponseBody_classifies:
  "responseBody \<noteq> JUndefined \<and> responseBody \<noteq> JNull \<longrightarrow>
   (ownProp responseBody ''awaitStatus'' = JUndefined \<longrightarrow>
      handleResponseBody responseBody =
        ((if truthy (ownProp responseBody ''message'')
          then [ConsoleLog (ownProp responseBody ''message'')] else []),
         Inl (GenerateFailureException ''The generate did not complete successfully.''))) \<and>
   (ownProp responseBody ''awaitStatus'' \<noteq> JUndefined \<and>
    ownProp responseBody ''awaitStatus'' \<noteq> JNull \<and>
    ownProp (ownProp responseBody ''awaitStatus'') ''generateFailedCount'' \<noteq> JNum 0 \<longrightarrow>
      handleResponseBody responseBody =
        ([ConsoleError (JStr (getStatusMessageToPrint
            (ownProp (ownProp responseBody ''awaitStatus'') ''statusMsg'')))],
         Inl (GenerateFailureException ''There were generate failures.''))) \<and>
   (ownProp responseBody ''awaitStatus'' \<noteq> JUndefined \<and>
    ownProp responseBody ''awaitStatus'' \<noteq> JNull \<and>
    ownProp (ownProp responseBody ''awaitStatus'') ''generateFailedCount'' = JNum 0 \<longrightarrow>
      handleResponseBody responseBody =
        ([ConsoleLog (JStr (getStatusMessageToPrint
            (ownProp (ownProp responseBody ''awaitStatus'') ''statusMsg'')))],
         Inr responseBody))"
  by (simp add: handleResponseBody_def getProp_def)

text \<open>
  The three cases at the response bodies \<^verbatim>\<open>{message: "x"}\<close>,
  \<^verbatim>\<open>{awaitStatus: {generateFailedCount: 2, statusMsg: ["a", "b"]}}\<close> and
  \<^verbatim>\<open>{awaitStatus: {generateFailedCount: 0, statusMsg: "ok"}}\<close>.
\<close>

theorem handleResponseBody_classifies_witness:
  "handleResponseBody (JObj [(''message'', JStr ''x'')]) =
     ([ConsoleLog (JStr ''x'')],
      Inl (GenerateFailureException ''The generate did not complete successfully.'')) \<and>
   handleResponseBody
     (JObj [(''awaitStatus'',
             JObj [(''generateFailedCount'', JNum 2),
                   (''statusMsg'', JArr [JStr ''a'', JStr ''b''])])]) =
     ([ConsoleError (JStr [CHR ''a'', CHR 0x0A, CHR ''b'', CHR 0x0A])],
      Inl (GenerateFailureException ''There were generate failures.'')) \<and>
   handleResponseBody
     (JObj [(''awaitStatus'',
             JObj [(''generateFailedCount'', JNum 0), (''statusMsg'', JStr ''ok'')])]) =
     ([ConsoleLog (JStr ''ok'')],
      Inr (JObj [(''awaitStatus'',
                  JObj [(''generateFailedCount'', JNum 0), (''statusMsg'', JStr ''ok'')])]))"
  using handleResponseBody_classifies [of "JObj [(''message'', JStr ''x'')]"]
    handleResponseBody_classifies
      [of "JObj [(''awaitStatus'',
                  JObj [(''generateFailedCount'', JNum 2),
                        (''statusMsg'', JArr [JStr ''a'', JStr ''b''])])]"]
    handleResponseBody_classifies
      [of "JObj [(''awaitStatus'',
                  JObj [(''generateFailedCount'', JNum 0), (''statusMsg'', JStr ''ok'')])]"]
  by (simp add: getStatusMessageToPrint_def)

text \<open>
  C2 as stated fails at two inputs that are not \<^verbatim>\<open>undefined\<close>. On \<^verbatim>\<open>null\<close> the code
  reaches none of the three outcomes: reading \<^verbatim>\<open>null.awaitStatus\<close> throws a
  \<^verbatim>\<open>TypeError\<close>. On \<^verbatim>\<open>{message: ""}\<close> the message is present and is not logged, the
  test being \<^verbatim>\<open>if (responseBody.message)\<close>.
\<close>

theorem handleResponseBody_classifies_counterexample:
  "handleResponseBody JNull = ([], Inl TypeError) \<and>
   hasOwnProperty (JObj [(''message'', JStr [])]) ''message'' \<and>
   handleResponseBody (JObj [(''message'', JStr [])]) =
     ([], Inl (GenerateFailureException ''The generate did not complete successfully.''))"
  by (simp add: handleResponseBody_def getProp_def hasOwnProperty_def)

text \<open>
  C9. A response body whose \<^verbatim>\<open>awaitStatus\<close> is there and whose
  \<^verbatim>\<open>awaitStatus.generateFailedCount\<close> reads \<^verbatim>\<open>undefined\<close> takes the failure branch: the
  formatted status message goes to the error stream and the call fails with "There were
  generate failures.". And the success branch is reached only with a
  \<^verbatim>\<open>generateFailedCount\<close> that is the number 0: whenever \<open>handleResponseBody\<close> returns a
  value, that value is its argument and the count is 0.
\<close>

theorem handleResponseBody_missing_count_fails:
  "(getProp responseBody ''awaitStatus'' = Inr awaitStatus \<and> awaitStatus \<noteq> JUndefined \<and>
    getProp awaitStatus ''generateFailedCount'' = Inr JUndefined \<longrightarrow>
      handleResponseBody responseBody =
        ([ConsoleError (JStr (getStatusMessageToPrint (ownProp awaitStatus ''statusMsg'')))],
         Inl (GenerateFailureException ''There were generate failures.''))) \<and>
   (handleResponseBody rb = (out, Inr r) \<longrightarrow>
      r = rb \<and> ownProp (ownProp rb ''awaitStatus'') ''generateFailedCount'' = JNum 0)"
  by (auto simp add: handleResponseBody_def getProp_def split: if_splits sum.splits)

theorem handleResponseBody_missing_count_fails_witness:
  "getProp (JObj [(''awaitStatus'', JObj [(''statusMsg'', JStr ''Generate failed'')])])
     ''awaitStatus'' = Inr (JObj [(''statusMsg'', JStr ''Generate failed'')]) \<and>
   JObj [(''statusMsg'', JStr ''Generate failed'')] \<noteq> JUndefined \<and>
   getProp (JObj [(''statusMsg'', JStr ''Generate failed'')]) ''generateFailedCount'' =
     Inr JUndefined \<and>
   handleResponseBody (JObj [(''awaitStatus'', JObj [(''statusMsg'', JStr ''Generate failed'')])]) =
     ([ConsoleError (JStr ''Generate failed'')],
      Inl (GenerateFailureException ''There were generate failures.'')) \<and>
   handleResponseBody
     (JObj [(''awaitStatus'',
             JObj [(''generateFailedCount'', JNum 0), (''statusMsg'', JStr ''ok'')])]) =
     ([ConsoleLog (JStr ''ok'')],
      Inr (JObj [(''awaitStatus'',
                  JObj [(''generateFailedCount'', JNum 0), (''statusMsg'', JStr ''ok'')])])) \<and>
   ownProp (ownProp (JObj [(''awaitStatus'',
             JObj [(''generateFailedCount'', JNum 0), (''statusMsg'', JStr ''ok'')])])
        ''awaitStatus'') ''generateFailedCount'' = JNum 0"
proof -
  let ?aw = "JObj [(''statusMsg'', JStr ''Generate failed'')]"
  let ?ok = "JObj [(''awaitStatus'',
                    JObj [(''generateFailedCount'', JNum 0), (''statusMsg'', JStr ''ok'')])]"
  have ok: "handleResponseBody ?ok = ([ConsoleLog (JStr ''ok'')], Inr ?ok)"
    by (simp add: handleResponseBody_def getProp_def getStatusMessageToPrint_def)
  have h: "getProp (JObj [(''awaitStatus'', ?aw)]) ''awaitStatus'' = Inr ?aw \<and>
           ?aw \<noteq> JUndefined \<and> getProp ?aw ''generateFailedCount'' = Inr JUndefined"
    by (simp add: getProp_def)
  from handleResponseBody_missing_count_fails
         [of "JObj [(''awaitStatus'', ?aw)]" ?aw ?ok "[ConsoleLog (JStr ''ok'')]" ?ok] h ok
  show ?thesis by (simp add: getStatusMessageToPrint_def)
qed

subsection \<open>getStatusMessageToPrint\<close>

text \<open>
  C7. \<open>getStatusMessageToPrint\<close> returns a string as it is; for a sequence of strings it
  returns each entry followed by a newline, the last one too; for every other value
  (\<^verbatim>\<open>undefined\<close>, \<^verbatim>\<open>null\<close>, a boolean, a number, an object) it returns the empty string.
\<close>

theorem getStatusMessageToPrint_cases:
  "getStatusMessageToPrint (JStr s) = s \<and>
   getStatusMessageToPrint (JArr (map JStr ss)) = concat (map (\<lambda>s. s @ [CHR 0x0A]) ss) \<and>
   getStatusMessageToPrint JUndefined = [] \<and>
   getStatusMessageToPrint JNull = [] \<and>
   getStatusMessageToPrint (JBool b) = [] \<and>
   getStatusMessageToPrint (JNum n) = [] \<and>
   getStatusMessageToPrint (JObj kvs) = []"
  by (simp add: getStatusMessageToPrint_def foldl_lines)

theorem getStatusMessageToPrint_cases_witness:
  "getStatusMessageToPrint (JStr ''ok'') = ''ok'' \<and>
   getStatusMessageToPrint (JArr [JStr ''a'', JStr ''b'']) = [CHR ''a'', CHR 0x0A, CHR ''b'', CHR 0x0A] \<and>
   getStatusMessageToPrint (JNum 2) = []"
  using getStatusMessageToPrint_cases [of "''ok''" "[''a'', ''b'']" True 2 "[]"]
  by simp

subsection \<open>assembleRequestBodyObject\<close>

text \<open>
  C5. For string inputs the object returned holds \<^verbatim>\<open>runtimeConfig\<close> iff that input is not
  empty, \<^verbatim>\<open>changeType\<close> iff that input is not empty, \<^verbatim>\<open>execStat\<close> (the value of
  \<^verbatim>\<open>executionStatus\<close>) iff that input is not empty, and always \<^verbatim>\<open>autoDeploy\<close>, which is
  \<^verbatim>\<open>true\<close> iff the input is exactly the string "true"; it holds no other key, an empty
  input leaving no key at all.
\<close>

theorem assembleRequestBodyObject_keys:
  "assembleRequestBodyObject (JStr runtimeConfig) (JStr changeType) (JStr executionStatus)
       (JStr autoDeploy) =
     JObj ((if runtimeConfig \<noteq> [] then [(''runtimeConfig'', JStr runtimeConfig)] else []) @
           (if changeType \<noteq> [] then [(''changeType'', JStr changeType)] else []) @
           (if executionStatus \<noteq> [] then [(''execStat'', JStr executionStatus)] else []) @
           [(''autoDeploy'', JBool (autoDeploy = ''true''))])"
  by (simp add: assembleRequestBodyObject_def stringHasContent_JStr)

theorem assembleRequestBodyObject_keys_witness:
  "assembleRequestBodyObject (JStr []) (JStr []) (JStr []) (JStr ''true'') =
     JObj [(''autoDeploy'', JBool True)] \<and>
   assembleRequestBodyObject (JStr ''cfg'') (JStr ''type'') (JStr ''status'') (JStr ''false'') =
     JObj [(''runtimeConfig'', JStr ''cfg''), (''changeType'', JStr ''type''),
           (''execStat'', JStr ''status''), (''autoDeploy'', JBool False)] \<and>
   assembleRequestBodyObject (JStr []) (JStr []) (JStr []) (JStr ''TRUE'') =
     JObj [(''autoDeploy'', JBool False)]"
  using assembleRequestBodyObject_keys [of "[]" "[]" "[]" "''true''"]
    assembleRequestBodyObject_keys [of "''cfg''" "''type''" "''status''" "''false''"]
    assembleRequestBodyObject_keys [of "[]" "[]" "[]" "''TRUE''"]
  by simp

subsection \<open>validateBuildParms\<close>

text \<open>
  C3, amended. \<open>validateBuildParms\<close> returns \<^verbatim>\<open>true\<close> iff \<^verbatim>\<open>buildParms\<close> is neither
  \<^verbatim>\<open>null\<close> nor \<^verbatim>\<open>undefined\<close> and every required field has content in it, by the test of
  \<open>stringHasContent\<close>: the field is not \<^verbatim>\<open>null\<close>, not \<^verbatim>\<open>undefined\<close>, and its \<^verbatim>\<open>length\<close> is
  not 0, so that a non-empty string has content and so has a non-empty array of task
  ids. It goes through all the required fields and writes one diagnostic for each
  field without content, in the order of the list; the diagnostic names
  \<^verbatim>\<open>containerId\<close> "an assignment ID", \<^verbatim>\<open>releaseId\<close> "a release ID", \<^verbatim>\<open>taskLevel\<close>
  "a level" and \<^verbatim>\<open>taskIds\<close> "a list of task IDs".
\<close>

theorem validateBuildParms_reports_all:
  "validateBuildParms buildParms requiredFields =
     Inr (buildParms \<noteq> JNull \<and> buildParms \<noteq> JUndefined \<and>
            (\<forall>f \<in> set requiredFields. stringHasContent (ownProp buildParms f)),
          if buildParms \<noteq> JNull \<and> buildParms \<noteq> JUndefined
          then map (\<lambda>f. ConsoleError (JStr (getMissingInputMessage f)))
                 (filter (\<lambda>f. \<not> stringHasContent (ownProp buildParms f)) requiredFields)
          else []) \<and>
   stringHasContent (JStr s) = (s \<noteq> []) \<and>
   stringHasContent (JArr xs) = (xs \<noteq> []) \<and>
   \<not> stringHasContent JNull \<and>
   \<not> stringHasContent JUndefined \<and>
   getMissingInputMessage ''containerId'' =
     ''Missing input: an assignment ID must be specified.'' \<and>
   getMissingInputMessage ''releaseId'' = ''Missing input: a release ID must be specified.'' \<and>
   getMissingInputMessage ''taskLevel'' = ''Missing input: a level must be specified.'' \<and>
   getMissingInputMessage ''taskIds'' =
     ''Missing input: a list of task IDs must be specified.''"
  by (simp add: validateBuildParms_def validateFields_eq getMissingInputMessage_def
        fieldNameReplacement_def stringHasContent_def)

text \<open>
  With an empty \<^verbatim>\<open>releaseId\<close> and no \<^verbatim>\<open>taskIds\<close>, both are reported, in the order of the
  required fields; with every field filled in, the parameters are valid and nothing is
  written.
\<close>

theorem validateBuildParms_reports_all_witness:
  "validateBuildParms
     (JObj [(''containerId'', JStr ''PLAY000001''), (''releaseId'', JStr []),
            (''taskLevel'', JStr ''DEV1'')])
     [''containerId'', ''releaseId'', ''taskLevel'', ''taskIds''] =
     Inr (False,
          [ConsoleError (JStr ''Missing input: a release ID must be specified.''),
           ConsoleError (JStr ''Missing input: a list of task IDs must be specified.'')]) \<and>
   validateBuildParms sampleParms [''containerId'', ''releaseId'', ''taskLevel'', ''taskIds''] =
     Inr (True, [])"
  using validateBuildParms_reports_all
      [of "JObj [(''containerId'', JStr ''PLAY000001''), (''releaseId'', JStr []),
                 (''taskLevel'', JStr ''DEV1'')]"
          "[''containerId'', ''releaseId'', ''taskLevel'', ''taskIds'']"]
    validateBuildParms_reports_all
      [of sampleParms "[''containerId'', ''releaseId'', ''taskLevel'', ''taskIds'']"]
  by (simp add: sampleParms_def stringHasContent_def)

text \<open>
  C3 as stated asks every required field to be a non-empty string. The task ids are an
  array: with \<^verbatim>\<open>taskIds\<close> the array of one id, which is no string, the code returns
  \<^verbatim>\<open>true\<close>.
\<close>

theorem validateBuildParms_reports_all_counterexample:
  "validateBuildParms (JObj [(''taskIds'', JArr [JStr ''7E3A5B274D24''])]) [''taskIds''] =
     Inr (True, []) \<and>
   \<not> isNonEmptyString (ownProp (JObj [(''taskIds'', JArr [JStr ''7E3A5B274D24''])]) ''taskIds'')"
  by (simp add: validateBuildParms_def getProp_def stringHasContent_def isNonEmptyString_def)

subsection \<open>assembleRequestUrl\<close>

text \<open>
  C4. With \<^verbatim>\<open>taskIds\<close> the sequence of strings \<open>ids\<close>, the text \<open>assembleRequestUrl\<close> hands
  to the URL constructor ends, after the \<^verbatim>\<open>?\<close> that closes the path, with the query
  \<^verbatim>\<open>taskId=id1&taskId=id2&...&taskId=idn&level=<taskLevel>\<close>: one \<^verbatim>\<open>taskId=\<close> entry for
  each id, in the order of the input, each followed by \<^verbatim>\<open>&\<close> (the last one too), and
  then one \<^verbatim>\<open>level=\<close> entry.
\<close>

theorem assembleRequestUrl_query:
  "getProp buildParms ''containerId'' = Inr (JStr containerId) \<and>
   getProp buildParms ''taskIds'' = Inr (JArr (map JStr ids)) \<and>
   getProp buildParms ''taskLevel'' = Inr (JStr taskLevel) \<longrightarrow>
   assembleRequestUrl newURL cesUrl srid buildParms =
     newURL ((normalizeBase cesUrl @ ''/ispw/'' @ srid @ ''/assignments/'' @ containerId @
              ''/taskIds/generate-await'') @ ''?'' @
             concat (map (\<lambda>i. ''taskId='' @ i @ ''&'') ids) @ ''level='' @ taskLevel)"
  using composeRequestUrl_strings [of buildParms containerId ids taskLevel newURL]
  by (simp add: assembleRequestUrl_normalized)

theorem assembleRequestUrl_query_witness:
  "getProp sampleParms ''containerId'' = Inr (JStr ''PLAY000001'') \<and>
   getProp sampleParms ''taskIds'' = Inr (JArr (map JStr [''7E3A5B274D24'', ''7E3A5B274EFA''])) \<and>
   getProp sampleParms ''taskLevel'' = Inr (JStr ''DEV1'') \<and>
   assembleRequestUrl Inr ''http://ces.example.com:2020/Compuware/ISPW/'' ''host-37733''
       sampleParms =
     Inr (''http://ces.example.com:2020/ispw/host-37733/assignments/PLAY000001/taskIds/generate-await'' @
          ''?'' @ ''taskId=7E3A5B274D24&taskId=7E3A5B274EFA&level=DEV1'')"
proof -
  have h: "getProp sampleParms ''containerId'' = Inr (JStr ''PLAY000001'') \<and>
      getProp sampleParms ''taskIds'' =
        Inr (JArr (map JStr [''7E3A5B274D24'', ''7E3A5B274EFA''])) \<and>
      getProp sampleParms ''taskLevel'' = Inr (JStr ''DEV1'')"
    by (simp add: sampleParms_def getProp_def)
  have b: "normalizeBase ''http://ces.example.com:2020/Compuware/ISPW/'' =
             ''http://ces.example.com:2020''"
    by code_simp
  from assembleRequestUrl_query
         [of sampleParms "''PLAY000001''" "[''7E3A5B274D24'', ''7E3A5B274EFA'']" "''DEV1''"
             Inr "''http://ces.example.com:2020/Compuware/ISPW/''" "''host-37733''"] h
  have "assembleRequestUrl Inr ''http://ces.example.com:2020/Compuware/ISPW/'' ''host-37733''
          sampleParms =
        Inr ((normalizeBase ''http://ces.example.com:2020/Compuware/ISPW/'' @ ''/ispw/'' @
              ''host-37733'' @ ''/assignments/'' @ ''PLAY000001'' @
              ''/taskIds/generate-await'') @ ''?'' @
             concat (map (\<lambda>i. ''taskId='' @ i @ ''&'') [''7E3A5B274D24'', ''7E3A5B274EFA'']) @
             ''level='' @ ''DEV1'')"
    by blast
  then show ?thesis using h by (simp add: b)
qed

text \<open>
  C1, at its failing input. The claim: whatever decoration the base URL ends in
  (\<^verbatim>\<open>/compuware\<close>, \<^verbatim>\<open>/ispw\<close>, \<^verbatim>\<open>/compuware/ispw\<close> in any case, or none), the URL is
  \<^verbatim>\<open><base>/ispw/<srid>/assignments/...\<close> with \<^verbatim>\<open><base>\<close> the base URL without that
  decoration. The code cuts at the last \<^verbatim>\<open>/ispw\<close> wherever it stands: for the server
  \<^verbatim>\<open>http://ispw.example.com:2020\<close> given with the decoration \<^verbatim>\<open>/compuware\<close>, the host
  itself starts with \<^verbatim>\<open>/ispw\<close> after the scheme, and the base that is left is \<^verbatim>\<open>http:\<close>.
\<close>

theorem assembleRequestUrl_host_named_ispw:
  "assembleRequestUrl Inr ''http://ispw.example.com:2020/compuware'' ''host-37733'' sampleParms =
     Inr ''http:/ispw/host-37733/assignments/PLAY000001/taskIds/generate-await?taskId=7E3A5B274D24&taskId=7E3A5B274EFA&level=DEV1''"
  by code_simp



subsection \<open>parseStringAsJson after convertObjectToJson\<close>




end
